theory Spec2Isabelle
  imports Main "HOL-Library.Word" "HOL-Library.AList" "HOL-Library.Log_Nat"
begin

section \<open>Python values, exceptions and strings\<close>

text \<open>
  The polling engine is \<^verbatim>\<open>src/network/snmp_worker.py\<close>, class \<^verbatim>\<open>SNMPWorker\<close>.
  Exceptions are values: every \<^verbatim>\<open>raise\<close> of the source is an \<open>Inl\<close> branch, every
  \<^verbatim>\<open>except\<close> clause a case distinction on the exception's class.
\<close>

datatype exn = ValueError | TypeError | IndexError | OverflowError | ZeroDivisionError | OtherError

text \<open>
  A raw protocol value is an object of the wire-protocol library. The engine applies
  exactly three operations to it: \<^verbatim>\<open>int(value)\<close>, \<^verbatim>\<open>str(value)\<close> and, when the
  attribute exists, \<^verbatim>\<open>value.asOctets()\<close>. A raw value is the record of what these three
  operations give: \<open>as_int\<close> is the integer or the exception \<^verbatim>\<open>int\<close> raises,
  \<open>as_octets\<close> is \<open>None\<close> when \<^verbatim>\<open>hasattr(value, 'asOctets')\<close> is false.
\<close>

record snmp_value =
  as_int :: "exn + int"
  as_str :: string
  as_octets :: "8 word list option"

text \<open>The converted values (Python's \<^verbatim>\<open>Any\<close>: here an integer or a string).\<close>

datatype py_val = PyInt int | PyStr string

definition startswith :: "string \<Rightarrow> string \<Rightarrow> bool" where
  "startswith s p = (take (length p) s = p)"

fun py_split :: "char \<Rightarrow> string \<Rightarrow> string list" where
  "py_split sep [] = [[]]"
| "py_split sep (c # cs) =
     (if c = sep then [] # py_split sep cs
      else (case py_split sep cs of [] \<Rightarrow> [[c]] | w # ws \<Rightarrow> (c # w) # ws))"

definition py_index_neg :: "'a list \<Rightarrow> nat \<Rightarrow> exn + 'a" where
  \<comment> \<open>\<^verbatim>\<open>xs[-k]\<close> for \<open>k \<ge> 1\<close>\<close>
  "py_index_neg xs k =
     (if 1 \<le> k \<and> k \<le> length xs then Inr (xs ! (length xs - k)) else Inl IndexError)"

definition is_digit :: "char \<Rightarrow> bool" where
  "is_digit c = (48 \<le> (of_char c :: nat) \<and> (of_char c :: nat) \<le> 57)"

definition is_space :: "char \<Rightarrow> bool" where
  \<comment> \<open>the characters below 256 that \<^verbatim>\<open>str.strip()\<close> and \<^verbatim>\<open>int()\<close> take for whitespace\<close>
  "is_space c = ((9 \<le> (of_char c :: nat) \<and> (of_char c :: nat) \<le> 13)
                \<or> (28 \<le> (of_char c :: nat) \<and> (of_char c :: nat) \<le> 32)
                \<or> (of_char c :: nat) = 133 \<or> (of_char c :: nat) = 160)"

definition py_strip :: "string \<Rightarrow> string" where
  "py_strip s = rev (dropWhile is_space (rev (dropWhile is_space s)))"

definition py_isdigit :: "string \<Rightarrow> bool" where
  "py_isdigit s = (s \<noteq> [] \<and> list_all is_digit s)"

fun digit_run :: "string \<Rightarrow> bool" where
  "digit_run [] = False"
| "digit_run [c] = is_digit c"
| "digit_run (c # d # r) =
     (is_digit c \<and> (if d = CHR ''_'' then digit_run r else digit_run (d # r)))"

definition digits_val :: "string \<Rightarrow> nat" where
  "digits_val s = fold (\<lambda>c n. 10 * n + (of_char c - 48)) s 0"

text \<open>
  \<^verbatim>\<open>int(s)\<close> on a string of characters below 256 (the engine meets dotted renderings
  of object identifiers and decimal renderings of integers): surrounding whitespace is
  stripped, one sign is allowed, digits may be grouped by single underscores; anything
  else raises \<^verbatim>\<open>ValueError\<close>.
\<close>

definition py_int_str :: "string \<Rightarrow> exn + int" where
  "py_int_str s =
     (let t = py_strip s;
          neg = (t \<noteq> [] \<and> hd t = CHR ''-'');
          body = (if t \<noteq> [] \<and> (hd t = CHR ''-'' \<or> hd t = CHR ''+'') then tl t else t)
      in if digit_run body
         then Inr ((if neg then - 1 else 1)
                   * int (digits_val (filter (\<lambda>c. c \<noteq> CHR ''_'') body)))
         else Inl ValueError)"

fun str_nat :: "nat \<Rightarrow> string" where
  "str_nat n =
     (if n < 10 then [char_of (48 + n)] else str_nat (n div 10) @ [char_of (48 + n mod 10)])"

definition str_int :: "int \<Rightarrow> string" where
  "str_int i = (if i < 0 then CHR ''-'' # str_nat (nat (- i)) else str_nat (nat i))"

definition join :: "string \<Rightarrow> string list \<Rightarrow> string" where
  "join sep xs = (case xs of [] \<Rightarrow> [] | x # r \<Rightarrow> x @ concat (map (\<lambda>y. sep @ y) r))"

definition hex_digit :: "nat \<Rightarrow> char" where
  "hex_digit d = (if d < 10 then char_of (48 + d) else char_of (87 + d))"

definition hex02 :: "8 word \<Rightarrow> string" where
  \<comment> \<open>\<^verbatim>\<open>f'{b:02x}'\<close> for a byte\<close>
  "hex02 b = [hex_digit (unat b div 16), hex_digit (unat b mod 16)]"

subsection \<open>Dictionaries\<close>

text \<open>
  A Python \<^verbatim>\<open>dict\<close> keeps insertion order: assigning to a present key keeps the key's
  position, a new key goes to the end. That is \<^const>\<open>AList.update\<close> on an association
  list.
\<close>

type_synonym ('k, 'v) dict = "('k \<times> 'v) list"

definition dict_set :: "('k, 'v) dict \<Rightarrow> 'k \<Rightarrow> 'v \<Rightarrow> ('k, 'v) dict" where
  "dict_set d k v = AList.update k v d"

definition dict_keys :: "('k, 'v) dict \<Rightarrow> 'k list" where
  "dict_keys d = map fst d"

definition dict_has :: "('k, 'v) dict \<Rightarrow> 'k \<Rightarrow> bool" where
  "dict_has d k = (k \<in> set (map fst d))"

definition dict_get :: "('k, 'v) dict \<Rightarrow> 'k \<Rightarrow> 'v \<Rightarrow> 'v" where
  "dict_get d k dflt = (case map_of d k of None \<Rightarrow> dflt | Some v \<Rightarrow> v)"

section \<open>The network\<close>

text \<open>
  One response of the protocol library: the call raises, or it returns the tuple
  \<^verbatim>\<open>(errorIndication, errorStatus, errorIndex, varBinds)\<close>, of which the engine reads the
  truth value of the first two and the list of (name, value) pairs; a name is read
  through \<^verbatim>\<open>str(name)\<close> only.
\<close>

type_synonym varbind = "string \<times> snmp_value"

datatype response = Raises exn | Reply bool bool "varbind list"

datatype site = ProbeSite | CountSite | EstimateSite | FetchSite | VlanSite | PowerSite

text \<open>
  The device and the transport, as the engine sees them. \<open>create_target\<close> is
  \<^verbatim>\<open>UdpTransportTarget.create\<close> at each of its six call sites (\<open>Some e\<close>: it raises).
  \<open>next_cmd\<close> and \<open>bulk_cmd\<close> take the number of the request within its loop, so a
  device may answer the same cursor differently over time; \<open>bulk_cmd\<close> also takes the
  max-repetitions of the request.
\<close>

record network =
  create_target :: "site \<Rightarrow> exn option"
  get_cmd :: "string \<Rightarrow> response"
  next_cmd :: "nat \<Rightarrow> string \<Rightarrow> response"
  bulk_cmd :: "nat \<Rightarrow> nat \<Rightarrow> string \<Rightarrow> response"

definition OID_MAPPING :: "string \<Rightarrow> string" where
  "OID_MAPPING name =
     (if name = ''ifDescr'' then ''1.3.6.1.2.1.2.2.1.2''
      else if name = ''ifOperStatus'' then ''1.3.6.1.2.1.2.2.1.8''
      else if name = ''ifAdminStatus'' then ''1.3.6.1.2.1.2.2.1.7''
      else if name = ''ifInOctets'' then ''1.3.6.1.2.1.2.2.1.10''
      else if name = ''ifOutOctets'' then ''1.3.6.1.2.1.2.2.1.16''
      else if name = ''ifSpeed'' then ''1.3.6.1.2.1.2.2.1.5''
      else if name = ''ifType'' then ''1.3.6.1.2.1.2.2.1.3''
      else if name = ''ifPhysAddress'' then ''1.3.6.1.2.1.2.2.1.6''
      else ''1.3.6.1.2.1.1.3.0'')"

section \<open>ValueCodec: \<^verbatim>\<open>_convert_snmp_value\<close>\<close>

definition numeric_oids :: "string list" where
  "numeric_oids = [''ifInOctets'', ''ifOutOctets'', ''ifSpeed'',
                   ''ifOperStatus'', ''ifAdminStatus'', ''ifType'']"

definition convert_body :: "string \<Rightarrow> snmp_value \<Rightarrow> exn + py_val" where
  "convert_body oid_name v =
     (if oid_name \<in> set [''ifOperStatus'', ''ifAdminStatus'', ''ifType'']
      then (case as_int v of Inl e \<Rightarrow> Inl e | Inr n \<Rightarrow> Inr (PyInt n))
      else if oid_name \<in> set [''ifInOctets'', ''ifOutOctets'', ''ifSpeed'']
      then (case as_int v of
              Inr n \<Rightarrow> Inr (PyInt n)
            | Inl e \<Rightarrow> if e = ValueError \<or> e = TypeError then Inr (PyInt 0) else Inl e)
      else if oid_name = ''ifPhysAddress''
      then (case as_octets v of
              Some octets \<Rightarrow>
                if length octets = 6 then Inr (PyStr (join '':'' (map hex02 octets)))
                else Inr (PyStr (as_str v))
            | None \<Rightarrow> Inr (PyStr (as_str v)))
      else Inr (PyStr (as_str v)))"

definition convert_snmp_value :: "string \<Rightarrow> snmp_value \<Rightarrow> exn + py_val" where
  "convert_snmp_value oid_name v =
     (case convert_body oid_name v of
        Inr x \<Rightarrow> Inr x
      | Inl e \<Rightarrow>
          if e = ValueError \<or> e = TypeError
          then (if oid_name \<in> set numeric_oids then Inr (PyInt 0) else Inr (PyStr (as_str v)))
          else Inl e)"

section \<open>BulkTableWalker: \<^verbatim>\<open>_bulk_fetch_single_oid\<close>\<close>

text \<open>The local variables of the walk that change while it runs.\<close>

record walk_state =
  oid_data :: "(int, py_val) dict"
  interfaces_found :: int
  found_in_batch :: bool
  current_oid :: string

text \<open>
  The \<^verbatim>\<open>for varBind in varBinds\<close> loop over one page. The result is the state when
  the loop is left, with \<open>Some e\<close> when it is left by an exception that the inner
  \<^verbatim>\<open>except (ValueError, IndexError)\<close> does not catch.
\<close>

fun walk_rows :: "string \<Rightarrow> string \<Rightarrow> varbind list \<Rightarrow> walk_state \<Rightarrow> exn option \<times> walk_state" where
  "walk_rows oid_name oid_base [] st = (None, st)"
| "walk_rows oid_name oid_base ((name_str, val) # rest) st =
     (if \<not> startswith name_str oid_base then (None, st)
      else (case py_int_str (last (py_split CHR ''.'' name_str)) of
              Inl e \<Rightarrow> walk_rows oid_name oid_base rest st
            | Inr if_index \<Rightarrow>
                (case convert_snmp_value oid_name val of
                   Inl e \<Rightarrow>
                     if e = ValueError \<or> e = IndexError
                     then walk_rows oid_name oid_base rest st
                     else (Some e, st)
                 | Inr x \<Rightarrow>
                     walk_rows oid_name oid_base rest
                       (st\<lparr>oid_data := dict_set (oid_data st) if_index x,
                           interfaces_found := interfaces_found st + 1,
                           found_in_batch := True,
                           current_oid := name_str\<rparr>))))"

lemma walk_rows_found_mono:
  "walk_rows oid_name oid_base vbs st = (r, st') \<Longrightarrow> interfaces_found st \<le> interfaces_found st'"
  by (induction oid_name oid_base vbs st rule: walk_rows.induct)
     (fastforce split: if_splits sum.splits)+

lemma walk_rows_found_in_batch:
  "walk_rows oid_name oid_base vbs st = (r, st') \<Longrightarrow> \<not> found_in_batch st
     \<Longrightarrow> found_in_batch st' \<Longrightarrow> interfaces_found st < interfaces_found st'"
proof (induction oid_name oid_base vbs st rule: walk_rows.induct)
  case (1 oid_name oid_base st)
  then show ?case by simp
next
  case (2 oid_name oid_base name_str val rest st)
  from "2.prems" "2.IH" show ?case
    by (auto split: if_splits sum.splits dest!: walk_rows_found_mono)
qed

text \<open>
  The \<^verbatim>\<open>while interfaces_found < max_interfaces\<close> loop; \<open>n\<close> counts the requests. Every
  way out of the loop, and the \<^verbatim>\<open>except Exception\<close> around it, ends in
  \<^verbatim>\<open>return oid_data\<close>.
\<close>

function walk_loop :: "network \<Rightarrow> string \<Rightarrow> string \<Rightarrow> int \<Rightarrow> nat \<Rightarrow> walk_state \<Rightarrow> (int, py_val) dict" where
  "walk_loop net oid_name oid_base max_interfaces n st =
     (if interfaces_found st < max_interfaces then
        (case bulk_cmd net n 10 (current_oid st) of
           Raises e \<Rightarrow> oid_data st
         | Reply errorIndication errorStatus varBinds \<Rightarrow>
             if errorIndication then oid_data st
             else if errorStatus then oid_data st
             else if varBinds = [] then oid_data st
             else (case walk_rows oid_name oid_base varBinds (st\<lparr>found_in_batch := False\<rparr>) of
                     (Some e, st') \<Rightarrow> oid_data st'
                   | (None, st') \<Rightarrow>
                       if \<not> found_in_batch st' then oid_data st'
                       else walk_loop net oid_name oid_base max_interfaces (Suc n) st'))
      else oid_data st)"
  by pat_completeness auto
termination
proof (relation "measure (\<lambda>(net, oid_name, oid_base, max_interfaces, n, st).
                   nat (max_interfaces - interfaces_found st))")
  show "wf (measure (\<lambda>(net, oid_name, oid_base, max_interfaces, n, st).
                   nat (max_interfaces - interfaces_found st)))"
    by simp
next
  fix net :: network and oid_name oid_base :: string and max_interfaces :: int and n :: nat
    and st st' :: walk_state and x2 x21 x22 x23 x y xa
  assume lt: "interfaces_found st < max_interfaces"
    and w: "(x, y) = walk_rows oid_name oid_base x23 (st\<lparr>found_in_batch := False\<rparr>)"
    and fb: "\<not> \<not> found_in_batch y"
  from walk_rows_found_in_batch [OF w [symmetric]] fb
  have "interfaces_found st < interfaces_found y" by simp
  with lt show "((net, oid_name, oid_base, max_interfaces, Suc n, y),
                 (net, oid_name, oid_base, max_interfaces, n, st))
        \<in> measure (\<lambda>(net, oid_name, oid_base, max_interfaces, n, st).
                   nat (max_interfaces - interfaces_found st))"
    by simp
qed

declare walk_loop.simps [simp del]

definition bulk_fetch_single_oid :: "network \<Rightarrow> string \<Rightarrow> int \<Rightarrow> (int, py_val) dict" where
  "bulk_fetch_single_oid net oid_name max_interfaces =
     walk_loop net oid_name (OID_MAPPING oid_name) max_interfaces 0
       \<lparr>oid_data = [], interfaces_found = 0, found_in_batch = False,
        current_oid = OID_MAPPING oid_name\<rparr>"

section \<open>ConnectivityProbe and InterfaceCountEstimator\<close>

definition test_connectivity :: "network \<Rightarrow> bool" where
  "test_connectivity net =
     (case create_target net ProbeSite of
        Some e \<Rightarrow> False
      | None \<Rightarrow>
          (case get_cmd net ''1.3.6.1.2.1.1.1.0'' of
             Raises e \<Rightarrow> False
           | Reply errorIndication errorStatus varBinds \<Rightarrow>
               if errorIndication then False
               else if errorStatus then False
               else (case varBinds of [] \<Rightarrow> False | vb # _ \<Rightarrow> True)))"

text \<open>
  The \<^verbatim>\<open>for _ in range(32)\<close> loop of \<^verbatim>\<open>_estimate_interface_count\<close>: \<open>k\<close> iterations are
  left, \<open>n\<close> requests were made, \<open>cursor\<close> is \<^verbatim>\<open>current_oid\<close>. \<open>Inr count\<close> is the count when the loop is left by
  \<^verbatim>\<open>break\<close> or exhaustion, \<open>Inl e\<close> an exception (a raising request, or
  \<^verbatim>\<open>varBinds[0]\<close> on an empty list).
\<close>

fun estimate_loop :: "network \<Rightarrow> nat \<Rightarrow> nat \<Rightarrow> int \<Rightarrow> string \<Rightarrow> exn + int" where
  "estimate_loop net 0 n count cursor = Inr count"
| "estimate_loop net (Suc k) n count cursor =
     (case next_cmd net n cursor of
        Raises e \<Rightarrow> Inl e
      | Reply errorIndication errorStatus varBinds \<Rightarrow>
          if errorIndication \<or> errorStatus then Inr count
          else (case varBinds of
                  [] \<Rightarrow> Inl IndexError
                | (name, val) # _ \<Rightarrow>
                    if \<not> startswith name (OID_MAPPING ''ifDescr'') then Inr count
                    else estimate_loop net k (Suc n) (count + 1) name))"

definition estimate_interface_count :: "network \<Rightarrow> int" where
  "estimate_interface_count net =
     (case create_target net EstimateSite of
        Some e \<Rightarrow> 20
      | None \<Rightarrow>
          (case estimate_loop net 32 0 0 (OID_MAPPING ''ifDescr'') of
             Inl e \<Rightarrow> 20
           | Inr count \<Rightarrow> max count 10))"

definition get_interface_count :: "network \<Rightarrow> int" where
  "get_interface_count net =
     (case create_target net CountSite of
        Some e \<Rightarrow> 20
      | None \<Rightarrow>
          (case get_cmd net ''1.3.6.1.2.1.2.1.0'' of
             Raises e \<Rightarrow> 20
           | Reply errorIndication errorStatus varBinds \<Rightarrow>
               if \<not> errorIndication \<and> \<not> errorStatus
               then (case varBinds of
                       [] \<Rightarrow> 20
                     | (name, val) # _ \<Rightarrow>
                         (case as_int val of Inl e \<Rightarrow> 20 | Inr count \<Rightarrow> min (count + 5) 64))
               else estimate_interface_count net))"

section \<open>InterfaceDataAggregator: \<^verbatim>\<open>_bulk_fetch_interface_data\<close>\<close>

definition core_oids :: "string list" where
  "core_oids = [''ifDescr'', ''ifOperStatus'', ''ifAdminStatus'',
                ''ifInOctets'', ''ifOutOctets'', ''ifSpeed'', ''ifType'', ''ifPhysAddress'']"

type_synonym interface_data = "(int, (string, py_val) dict) dict"

definition merge_row :: "string \<Rightarrow> int \<times> py_val \<Rightarrow> interface_data \<Rightarrow> interface_data" where
  "merge_row oid_name row interface_data =
     (let if_index = fst row; value = snd row;
          d = (if \<not> dict_has interface_data if_index
               then dict_set interface_data if_index [] else interface_data)
      in dict_set d if_index (dict_set (dict_get d if_index []) oid_name value))"

text \<open>
  Every walk returns a dictionary (it catches its own exceptions), so the
  \<^verbatim>\<open>isinstance(result, Exception)\<close> branch of the merge is never taken. The walks are
  gathered in the order of \<open>core_oids\<close>; each has its own request numbering.
\<close>

definition merge_results :: "(string \<Rightarrow> (int, py_val) dict) \<Rightarrow> interface_data" where
  "merge_results result =
     fold (\<lambda>oid_name interface_data. fold (merge_row oid_name) (result oid_name) interface_data)
       core_oids []"

definition bulk_fetch_interface_data :: "network \<Rightarrow> int \<Rightarrow> interface_data" where
  "bulk_fetch_interface_data net max_interfaces =
     (case create_target net FetchSite of
        Some e \<Rightarrow> []
      | None \<Rightarrow> merge_results (\<lambda>oid_name. bulk_fetch_single_oid net oid_name max_interfaces))"

section \<open>VlanResolver: \<^verbatim>\<open>_get_vlan_data_bulk\<close>\<close>

definition dot1qVlanStaticName :: string where
  "dot1qVlanStaticName = ''1.3.6.1.2.1.17.7.1.4.3.1.1''"

definition dot1qPvid :: string where
  "dot1qPvid = ''1.3.6.1.2.1.17.7.1.4.5.1.1''"

definition vmVlan :: string where
  "vmVlan = ''1.3.6.1.4.1.9.9.68.1.2.2.1.2''"

definition vtpVlanName :: string where
  "vtpVlanName = ''1.3.6.1.4.1.9.9.46.1.3.1.1.4.1''"

text \<open>
  The row loop shared, word for word, by \<^verbatim>\<open>_fetch_pvid_data\<close> and
  \<^verbatim>\<open>_fetch_cisco_vlan_data\<close>. An exception of \<^verbatim>\<open>int(val)\<close> other than
  \<^verbatim>\<open>ValueError\<close> and \<^verbatim>\<open>IndexError\<close> leaves the loop for the outer handler, which
  returns what was collected.
\<close>

fun vlan_rows :: "string \<Rightarrow> int list \<Rightarrow> varbind list \<Rightarrow> (int, string) dict \<Rightarrow> (int, string) dict" where
  "vlan_rows oid interface_indices [] d = d"
| "vlan_rows oid interface_indices ((name_str, val) # rest) d =
     (if \<not> startswith name_str oid then vlan_rows oid interface_indices rest d
      else (case py_int_str (last (py_split CHR ''.'' name_str)) of
              Inl e \<Rightarrow> vlan_rows oid interface_indices rest d
            | Inr port_index \<Rightarrow>
                (case as_int val of
                   Inl e \<Rightarrow>
                     if e = ValueError \<or> e = IndexError
                     then vlan_rows oid interface_indices rest d
                     else d
                 | Inr vlan_id \<Rightarrow>
                     if port_index \<in> set interface_indices
                     then vlan_rows oid interface_indices rest (dict_set d port_index (str_int vlan_id))
                     else vlan_rows oid interface_indices rest d)))"

definition fetch_vlan_table :: "network \<Rightarrow> string \<Rightarrow> int list \<Rightarrow> (int, string) dict" where
  "fetch_vlan_table net oid interface_indices =
     (case bulk_cmd net 0 20 oid of
        Raises e \<Rightarrow> []
      | Reply errorIndication errorStatus varBinds \<Rightarrow>
          if \<not> errorIndication \<and> \<not> errorStatus \<and> varBinds \<noteq> []
          then vlan_rows oid interface_indices varBinds []
          else [])"

definition fetch_pvid_data :: "network \<Rightarrow> int list \<Rightarrow> (int, string) dict" where
  "fetch_pvid_data net interface_indices = fetch_vlan_table net dot1qPvid interface_indices"

definition fetch_cisco_vlan_data :: "network \<Rightarrow> int list \<Rightarrow> (int, string) dict" where
  "fetch_cisco_vlan_data net interface_indices = fetch_vlan_table net vmVlan interface_indices"

text \<open>
  The row loop of \<^verbatim>\<open>_fetch_vlan_names\<close>; \<open>k\<close> is 1 for the standard table
  (\<^verbatim>\<open>split('.')[-1]\<close>) and 2 for the vendor table (\<^verbatim>\<open>split('.')[-2]\<close>).
\<close>

fun name_rows :: "string \<Rightarrow> nat \<Rightarrow> varbind list \<Rightarrow> (int, string) dict \<Rightarrow> (int, string) dict" where
  "name_rows oid k [] d = d"
| "name_rows oid k ((name_str, val) # rest) d =
     (if \<not> startswith name_str oid then name_rows oid k rest d
      else (case py_index_neg (py_split CHR ''.'' name_str) k of
              Inl e \<Rightarrow> name_rows oid k rest d
            | Inr seg \<Rightarrow>
                (case py_int_str seg of
                   Inl e \<Rightarrow> name_rows oid k rest d
                 | Inr vlan_id \<Rightarrow>
                     (let vlan_name = py_strip (as_str val)
                      in if vlan_name \<noteq> [] then name_rows oid k rest (dict_set d vlan_id vlan_name)
                         else name_rows oid k rest d))))"

definition fetch_vlan_names :: "network \<Rightarrow> (int, string) dict" where
  "fetch_vlan_names net =
     (case bulk_cmd net 0 50 dot1qVlanStaticName of
        Reply errorIndication errorStatus varBinds \<Rightarrow>
          if \<not> errorIndication \<and> \<not> errorStatus \<and> varBinds \<noteq> []
          then name_rows dot1qVlanStaticName 1 varBinds []
          else []
      | Raises e \<Rightarrow>
          (case bulk_cmd net 0 50 vtpVlanName of
             Raises e' \<Rightarrow> []
           | Reply errorIndication errorStatus varBinds \<Rightarrow>
               if \<not> errorIndication \<and> \<not> errorStatus \<and> varBinds \<noteq> []
               then name_rows vtpVlanName 2 varBinds []
               else []))"

text \<open>
  Method 3: the loop over \<^verbatim>\<open>vlan_data.items()\<close> that rewrites a bare numeric VLAN id
  to \<^verbatim>\<open>"<id> (<name>)"\<close>. The second argument is what is left of the items.
\<close>

definition vlan_label :: "int \<Rightarrow> string \<Rightarrow> string" where
  "vlan_label vlan_id vlan_name = str_int vlan_id @ '' ('' @ vlan_name @ '')''"

fun enhance :: "(int, string) dict \<Rightarrow> (int \<times> string) list \<Rightarrow> (int, string) dict
                  \<Rightarrow> exn option \<times> (int, string) dict" where
  "enhance vlan_names [] vlan_data = (None, vlan_data)"
| "enhance vlan_names ((if_index, vlan_info) # rest) vlan_data =
     (if py_isdigit vlan_info
      then (case py_int_str vlan_info of
              Inl e \<Rightarrow> (Some e, vlan_data)
            | Inr vlan_id \<Rightarrow>
                if dict_has vlan_names vlan_id
                then enhance vlan_names rest
                       (dict_set vlan_data if_index (vlan_label vlan_id (dict_get vlan_names vlan_id [])))
                else enhance vlan_names rest vlan_data)
      else enhance vlan_names rest vlan_data)"

definition merge_cisco :: "(int, string) dict \<Rightarrow> (int, string) dict \<Rightarrow> (int, string) dict" where
  "merge_cisco cisco_vlan_data vlan_data =
     fold (\<lambda>(if_index, vlan_info) d. if \<not> dict_has d if_index then dict_set d if_index vlan_info else d)
       cisco_vlan_data vlan_data"

text \<open>Methods 1 and 2: \<^verbatim>\<open>vlan_data\<close> before the names are looked up.\<close>

definition vlan_ids :: "network \<Rightarrow> int list \<Rightarrow> (int, string) dict" where
  "vlan_ids net interface_indices =
     (let pvid_data = fetch_pvid_data net interface_indices;
          vlan_data = pvid_data
      in if vlan_data = [] \<or> 2 * length vlan_data < length interface_indices
         then (let cisco_vlan_data = fetch_cisco_vlan_data net interface_indices
               in if cisco_vlan_data \<noteq> [] then merge_cisco cisco_vlan_data vlan_data
                  else vlan_data)
         else vlan_data)"

text \<open>
  The \<^verbatim>\<open>try\<close> block of \<^verbatim>\<open>_get_vlan_data_bulk\<close>: the exception that ends it, if any, and
  \<^verbatim>\<open>vlan_data\<close> at that moment.
\<close>

definition vlan_try :: "network \<Rightarrow> int list \<Rightarrow> exn option \<times> (int, string) dict" where
  "vlan_try net interface_indices =
     (case create_target net VlanSite of
        Some e \<Rightarrow> (Some e, [])
      | None \<Rightarrow>
          (let vlan_data = vlan_ids net interface_indices
           in if vlan_data \<noteq> []
              then (let vlan_names = fetch_vlan_names net
                    in if vlan_names \<noteq> [] then enhance vlan_names vlan_data vlan_data
                       else (None, vlan_data))
              else (None, vlan_data)))"

definition fill_na :: "int list \<Rightarrow> (int, string) dict \<Rightarrow> (int, string) dict" where
  "fill_na interface_indices d =
     fold (\<lambda>index d. if \<not> dict_has d index then dict_set d index ''N/A'' else d) interface_indices d"

text \<open>
  The handler \<^verbatim>\<open>except Exception\<close> only logs; what follows the \<^verbatim>\<open>try\<close> statement
  raises nothing, so the function returns on every path.
\<close>

definition get_vlan_data_bulk :: "network \<Rightarrow> int list \<Rightarrow> exn + (int, string) dict" where
  "get_vlan_data_bulk net interface_indices =
     (case vlan_try net interface_indices of
        (Some e, vlan_data) \<Rightarrow> Inr (fill_na interface_indices vlan_data)
      | (None, vlan_data) \<Rightarrow> Inr (fill_na interface_indices vlan_data))"

section \<open>PowerResolver: \<^verbatim>\<open>_get_power_data_bulk\<close>\<close>

text \<open>
  \<^verbatim>\<open>power_value / 1000\<close> is Python's true division of two integers: the binary64
  number nearest to the quotient, ties to even. A finite binary64 number is kept exactly,
  as \<open>Float m s\<close> for \<open>m * 2 ^ s\<close> with \<open>\<bar>m\<bar> \<le> 2 ^ 53\<close> and \<open>- 1074 \<le> s\<close>. All
  arithmetic below is integer arithmetic.
\<close>

datatype py_float = Float int int

definition round_half_even_div :: "int \<Rightarrow> int \<Rightarrow> int" where
  \<comment> \<open>the integer nearest to \<open>a / b\<close> for \<open>0 \<le> a\<close>, \<open>0 < b\<close>, ties to even\<close>
  "round_half_even_div a b =
     (let q = a div b; r = a mod b
      in if 2 * r < b then q else if 2 * r > b then q + 1 else if even q then q else q + 1)"

definition float_of_quotient :: "int \<Rightarrow> int \<Rightarrow> exn + py_float" where
  \<comment> \<open>for \<open>0 < n\<close>, \<open>0 < d\<close>; \<open>e\<close> is the binary exponent of \<open>n / d\<close>: \<open>2 ^ e \<le> n / d < 2 ^ (e + 1)\<close>\<close>
  "float_of_quotient n d =
     (let k = bitlen n - bitlen d;
          e = (if (if 0 \<le> k then d * 2 ^ nat k \<le> n else d \<le> n * 2 ^ nat (- k)) then k else k - 1);
          s = max (e - 52) (- 1074);
          m = (if 0 \<le> s then round_half_even_div n (d * 2 ^ nat s)
               else round_half_even_div (n * 2 ^ nat (- s)) d)
      in if 1024 \<le> e \<or> (e = 1023 \<and> m = 2 ^ 53) then Inl OverflowError else Inr (Float m s))"

definition py_truediv :: "int \<Rightarrow> int \<Rightarrow> exn + py_float" where
  "py_truediv n d =
     (if d = 0 then Inl ZeroDivisionError
      else if n = 0 then Inr (Float 0 0)
      else (case float_of_quotient \<bar>n\<bar> \<bar>d\<bar> of
              Inl e \<Rightarrow> Inl e
            | Inr (Float m s) \<Rightarrow> Inr (Float (if (n < 0) = (d < 0) then m else - m) s)))"

definition format_1f :: "py_float \<Rightarrow> string" where
  \<comment> \<open>\<^verbatim>\<open>f"{x:.1f}"\<close>: the exact value rounded to one decimal place, ties to even\<close>
  "format_1f x =
     (case x of Float m s \<Rightarrow>
        (let t = (if 0 \<le> s then 10 * \<bar>m\<bar> * 2 ^ nat s
                  else round_half_even_div (10 * \<bar>m\<bar>) (2 ^ nat (- s)))
         in (if m < 0 then ''-'' else [])
            @ str_nat (nat (t div 10)) @ ''.'' @ str_nat (nat (t mod 10))))"

definition power_text :: "int \<Rightarrow> exn + string" where
  "power_text power_value =
     (if power_value > 0
      then (case py_truediv power_value 1000 of
              Inl e \<Rightarrow> Inl e
            | Inr x \<Rightarrow> Inr (format_1f x @ ''W''))
      else Inr ''0W'')"

definition POWER_OID_MAPPING :: "(string \<times> string) list" where
  "POWER_OID_MAPPING =
     [(''cethPsePortPower'', ''1.3.6.1.4.1.9.9.402.1.2.1.7''),
      (''pethPsePortPowerConsumption'', ''1.3.6.1.2.1.105.1.1.1.4'')]"

text \<open>
  The row loop over one page of power readings. \<open>Some e\<close>: an exception that the inner
  \<^verbatim>\<open>except (ValueError, IndexError)\<close> does not catch leaves the loop; the
  \<^verbatim>\<open>except Exception: continue\<close> around the request then moves on to the next prefix.
\<close>

fun power_rows :: "string \<Rightarrow> int list \<Rightarrow> varbind list \<Rightarrow> (int, string) dict
                     \<Rightarrow> exn option \<times> (int, string) dict" where
  "power_rows power_oid interface_indices [] power_data = (None, power_data)"
| "power_rows power_oid interface_indices ((name_str, val) # rest) power_data =
     (if \<not> startswith name_str power_oid
      then power_rows power_oid interface_indices rest power_data
      else (case py_int_str (last (py_split CHR ''.'' name_str)) of
              Inl e \<Rightarrow> power_rows power_oid interface_indices rest power_data
            | Inr if_index \<Rightarrow>
                if if_index \<in> set interface_indices
                then (case as_int val of
                        Inl e \<Rightarrow>
                          if e = ValueError \<or> e = IndexError
                          then power_rows power_oid interface_indices rest power_data
                          else (Some e, power_data)
                      | Inr power_value \<Rightarrow>
                          (case power_text power_value of
                             Inl e \<Rightarrow>
                               if e = ValueError \<or> e = IndexError
                               then power_rows power_oid interface_indices rest power_data
                               else (Some e, power_data)
                           | Inr txt \<Rightarrow>
                               power_rows power_oid interface_indices rest
                                 (dict_set power_data if_index txt)))
                else power_rows power_oid interface_indices rest power_data))"

fun power_oids_loop :: "network \<Rightarrow> int list \<Rightarrow> (string \<times> string) list \<Rightarrow> (int, string) dict
                          \<Rightarrow> (int, string) dict" where
  "power_oids_loop net interface_indices [] power_data = power_data"
| "power_oids_loop net interface_indices ((power_oid_name, power_oid) # rest) power_data =
     (case bulk_cmd net 0 20 power_oid of
        Raises e \<Rightarrow> power_oids_loop net interface_indices rest power_data
      | Reply errorIndication errorStatus varBinds \<Rightarrow>
          if \<not> errorIndication \<and> \<not> errorStatus \<and> varBinds \<noteq> []
          then (case power_rows power_oid interface_indices varBinds power_data of
                  (Some e, power_data') \<Rightarrow> power_oids_loop net interface_indices rest power_data'
                | (None, power_data') \<Rightarrow>
                    if power_data' \<noteq> [] then power_data'
                    else power_oids_loop net interface_indices rest power_data')
          else power_oids_loop net interface_indices rest power_data)"

definition get_power_data_bulk :: "network \<Rightarrow> int list \<Rightarrow> exn + (int, string) dict" where
  "get_power_data_bulk net interface_indices =
     (case create_target net PowerSite of
        Some e \<Rightarrow> Inr (fill_na interface_indices [])
      | None \<Rightarrow>
          Inr (fill_na interface_indices
                 (power_oids_loop net interface_indices POWER_OID_MAPPING [])))"

section \<open>Orchestrator: \<^verbatim>\<open>_fetch_interface_data\<close> and \<^verbatim>\<open>run\<close>\<close>

record interface_dict =
  Index :: int
  Description :: py_val
  OpStatus :: py_val
  AdminStatus :: py_val
  VLAN :: string
  InOctets :: py_val
  OutOctets :: py_val
  Speed :: py_val
  Type :: py_val
  PhysAddress :: py_val
  Power :: string

definition assemble :: "(int, string) dict \<Rightarrow> (int, string) dict \<Rightarrow> int \<times> (string, py_val) dict
                          \<Rightarrow> interface_dict" where
  "assemble vlan_data power_data item =
     (let if_index = fst item; data = snd item
      in \<lparr>Index = if_index,
          Description = dict_get data ''ifDescr'' (PyStr (''Interface-'' @ str_int if_index)),
          OpStatus = dict_get data ''ifOperStatus'' (PyInt 2),
          AdminStatus = dict_get data ''ifAdminStatus'' (PyInt 2),
          VLAN = dict_get vlan_data if_index ''N/A'',
          InOctets = dict_get data ''ifInOctets'' (PyInt 0),
          OutOctets = dict_get data ''ifOutOctets'' (PyInt 0),
          Speed = dict_get data ''ifSpeed'' (PyInt 0),
          Type = dict_get data ''ifType'' (PyInt 1),
          PhysAddress = dict_get data ''ifPhysAddress'' (PyStr []),
          Power = dict_get power_data if_index ''N/A''\<rparr>)"

text \<open>
  \<^verbatim>\<open>asyncio.gather(..., return_exceptions=True)\<close> hands an exception of a resolver over
  as a value, which the orchestrator replaces by the empty dictionary.
\<close>

definition fetch_interface_data :: "network \<Rightarrow> exn + interface_dict list" where
  "fetch_interface_data net =
     (if \<not> test_connectivity net then Inr []
      else (let interface_count = get_interface_count net;
                interface_data = bulk_fetch_interface_data net interface_count
            in if interface_data = [] then Inr []
               else (let vlan_data = (case get_vlan_data_bulk net (dict_keys interface_data) of
                                        Inl e \<Rightarrow> [] | Inr d \<Rightarrow> d);
                         power_data = (case get_power_data_bulk net (dict_keys interface_data) of
                                         Inl e \<Rightarrow> [] | Inr d \<Rightarrow> d)
                     in Inr (map (assemble vlan_data power_data) interface_data))))"

text \<open>
  The signals \<^verbatim>\<open>run\<close> emits, in order. The text of a caught exception, which the
  source appends to \<^verbatim>\<open>"SNMP operation failed: "\<close>, is not modelled.
\<close>

datatype signal = Success "interface_dict list" | Error string | Finished

definition run :: "network \<Rightarrow> signal list" where
  "run net =
     (case fetch_interface_data net of
        Inr result \<Rightarrow>
          if result \<noteq> [] then [Success result, Finished]
          else [Error ''No interface data retrieved'', Finished]
      | Inl e \<Rightarrow> [Error ''SNMP operation failed: '', Finished])"

section \<open>Concrete values and devices\<close>


text \<open>A raw integer value, which has no \<^verbatim>\<open>asOctets\<close>.\<close>

definition int_value :: "int \<Rightarrow> snmp_value" where
  "int_value i = \<lparr>as_int = Inr i, as_str = str_int i, as_octets = None\<rparr>"

text \<open>
  A device that answers the probe and every scalar read, and whose tables all end in an
  error indication.
\<close>

definition silent_tables_device :: network where
  "silent_tables_device =
     \<lparr>create_target = (\<lambda>s. None),
      get_cmd = (\<lambda>oid. Reply False False [(oid, int_value 7)]),
      next_cmd = (\<lambda>n oid. Reply True False []),
      bulk_cmd = (\<lambda>n m oid. Reply True False [])\<rparr>"

text \<open>A device that answers nothing: every request ends in an error indication.\<close>

definition unreachable_device :: network where
  "unreachable_device =
     \<lparr>create_target = (\<lambda>s. None),
      get_cmd = (\<lambda>oid. Reply True False []),
      next_cmd = (\<lambda>n oid. Reply True False []),
      bulk_cmd = (\<lambda>n m oid. Reply True False [])\<rparr>"

text \<open>A device on which every request of the fallback walk raises.\<close>

definition raising_walk_device :: network where
  "raising_walk_device =
     \<lparr>create_target = (\<lambda>s. None),
      get_cmd = (\<lambda>oid. Reply True False []),
      next_cmd = (\<lambda>n oid. Raises OtherError),
      bulk_cmd = (\<lambda>n m oid. Reply True False [])\<rparr>"

text \<open>A raw octet-string value that reads as text.\<close>

definition text_value :: "string \<Rightarrow> snmp_value" where
  "text_value s = \<lparr>as_int = Inl ValueError, as_str = s, as_octets = None\<rparr>"

text \<open>
  What Method 3 makes of one entry of \<^verbatim>\<open>vlan_data\<close>: a bare numeric VLAN id found in
  the name map becomes \<^verbatim>\<open>"<id> (<name>)"\<close>, anything else stays.
\<close>

definition with_name :: "(int, string) dict \<Rightarrow> string \<Rightarrow> string" where
  "with_name vlan_names vlan_info =
     (if py_isdigit vlan_info
      then (case py_int_str vlan_info of
              Inl e \<Rightarrow> vlan_info
            | Inr vlan_id \<Rightarrow>
                if dict_has vlan_names vlan_id
                then vlan_label vlan_id (dict_get vlan_names vlan_id [])
                else vlan_info)
      else vlan_info)"

text \<open>
  A switch with three ports: the standard table has a PVID for port 1 only, the vendor
  table has VLANs for ports 1 and 2, VLAN 10 is named.
\<close>

definition vlan_device :: network where
  "vlan_device =
     \<lparr>create_target = (\<lambda>s. None),
      get_cmd = (\<lambda>oid. Reply False False [(oid, int_value 3)]),
      next_cmd = (\<lambda>n oid. Reply True False []),
      bulk_cmd = (\<lambda>n m oid.
        if oid = dot1qPvid
        then Reply False False [(dot1qPvid @ ''.1'', int_value 10)]
        else if oid = vmVlan
        then Reply False False [(vmVlan @ ''.1'', int_value 20), (vmVlan @ ''.2'', int_value 30)]
        else if oid = dot1qVlanStaticName
        then Reply False False [(dot1qVlanStaticName @ ''.10'', text_value ''office'')]
        else Reply True False [])\<rparr>"



text \<open>A device whose description table has two rows, sent in one page.\<close>

definition two_row_device :: network where
  "two_row_device =
     \<lparr>create_target = (\<lambda>s. None),
      get_cmd = (\<lambda>oid. Reply False False [(oid, int_value 3)]),
      next_cmd = (\<lambda>n oid. Reply True False []),
      bulk_cmd = (\<lambda>n m oid.
        if n = 0 \<and> oid = ''1.3.6.1.2.1.2.2.1.2''
        then Reply False False
               [(''1.3.6.1.2.1.2.2.1.2.1'', text_value ''eth1''),
                (''1.3.6.1.2.1.2.2.1.2.2'', text_value ''eth2'')]
        else Reply True False [])\<rparr>"

text \<open>
  A device whose description table has rows 1 and 3 and whose status table has rows
  1, 2 and 3; each page ends with the first identifier of the next column.
\<close>

definition sparse_device :: network where
  "sparse_device =
     \<lparr>create_target = (\<lambda>s. None),
      get_cmd = (\<lambda>oid. Reply False False [(oid, int_value 3)]),
      next_cmd = (\<lambda>n oid. Reply True False []),
      bulk_cmd = (\<lambda>n m oid.
        if oid = ''1.3.6.1.2.1.2.2.1.2''
        then Reply False False
               [(''1.3.6.1.2.1.2.2.1.2.1'', text_value ''eth1''),
                (''1.3.6.1.2.1.2.2.1.2.3'', text_value ''eth3''),
                (''1.3.6.1.2.1.2.2.1.3.1'', int_value 6)]
        else if oid = ''1.3.6.1.2.1.2.2.1.8''
        then Reply False False
               [(''1.3.6.1.2.1.2.2.1.8.1'', int_value 1),
                (''1.3.6.1.2.1.2.2.1.8.2'', int_value 1),
                (''1.3.6.1.2.1.2.2.1.8.3'', int_value 2),
                (''1.3.6.1.2.1.2.2.1.9.1'', int_value 0)]
        else Reply True False [])\<rparr>"



text \<open>No reply to a request of the walk has more than \<open>p\<close> rows.\<close>

definition page_size_at_most :: "network \<Rightarrow> nat \<Rightarrow> bool" where
  "page_size_at_most net p =
     (\<forall>n c ei es vbs. bulk_cmd net n 10 c = Reply ei es vbs \<longrightarrow> length vbs \<le> p)"


text \<open>
  The keys of a list in the order of their first occurrence: the key order of a
  dictionary into which the list's elements are inserted one after the other.
\<close>

definition first_seen :: "'a list \<Rightarrow> 'a list \<Rightarrow> 'a list" where
  "first_seen acc xs = fold (\<lambda>x acc. if x \<in> set acc then acc else acc @ [x]) xs acc"

section \<open>Properties of the estimator\<close>

lemma estimate_loop_bound:
  "estimate_loop net k n c cur = Inr c' \<Longrightarrow> c \<le> c' \<and> c' \<le> c + int k"
proof (induction k arbitrary: n c cur)
  case 0
  then show ?case by simp
next
  case (Suc k)
  show ?case
  proof (cases "next_cmd net n cur")
    case (Raises e)
    with Suc.prems show ?thesis by simp
  next
    case (Reply ei es vbs)
    show ?thesis
    proof (cases "ei \<or> es")
      case True
      with Suc.prems Reply show ?thesis by auto
    next
      case False
      show ?thesis
      proof (cases vbs)
        case Nil
        with Suc.prems Reply False show ?thesis by simp
      next
        case (Cons vb rest)
        obtain name val where vb: "vb = (name, val)" by (cases vb)
        show ?thesis
        proof (cases "startswith name (OID_MAPPING ''ifDescr'')")
          case True
          with Suc.prems Reply False Cons vb
          have "estimate_loop net k (Suc n) (c + 1) name = Inr c'" by simp
          from Suc.IH [OF this] show ?thesis by simp
        next
          case F2: False
          with Suc.prems Reply False Cons vb show ?thesis by simp
        qed
      qed
    qed
  qed
qed

lemma estimate_interface_count_range:
  "10 \<le> estimate_interface_count net \<and> estimate_interface_count net \<le> 32"
proof (cases "create_target net EstimateSite")
  case (Some e)
  then show ?thesis by (simp add: estimate_interface_count_def)
next
  case None
  show ?thesis
  proof (cases "estimate_loop net 32 0 0 (OID_MAPPING ''ifDescr'')")
    case (Inl e)
    with None show ?thesis by (simp add: estimate_interface_count_def)
  next
    case (Inr c)
    from estimate_loop_bound [OF Inr] have "c \<le> 32" by simp
    with None Inr show ?thesis by (simp add: estimate_interface_count_def)
  qed
qed

text \<open>
  Claim C10. On every execution path the interface-count estimate is at most 64: the
  scalar read gives \<open>min (count + 5) 64\<close>, the fallback walk counts at most 32 entries
  and gives a value between 10 and 32, and every exception gives 20. The estimate is
  the \<^verbatim>\<open>max_interfaces\<close> of every core field walk.
\<close>

theorem interface_count_at_most_64:
  "get_interface_count net \<le> 64
   \<and> 10 \<le> estimate_interface_count net \<and> estimate_interface_count net \<le> 32"
proof -
  have r: "10 \<le> estimate_interface_count net \<and> estimate_interface_count net \<le> 32"
    by (rule estimate_interface_count_range)
  then have "estimate_interface_count net \<le> 64" by linarith
  then have "get_interface_count net \<le> 64"
    by (simp add: get_interface_count_def
             split: option.split response.split list.split sum.split prod.split)
  with r show ?thesis by simp
qed

section \<open>Properties of the value codec\<close>



section \<open>Properties of the orchestrator\<close>

text \<open>
  Claim C1, as amended. When the probe fails, or when it succeeds and the aggregation
  over the core fields is empty, \<^verbatim>\<open>_fetch_interface_data\<close> returns the empty list
  and \<^verbatim>\<open>run\<close> emits the one error \<^verbatim>\<open>No interface data retrieved\<close>, then
  \<^verbatim>\<open>finished\<close>. The text \<^verbatim>\<open>No interfaces found\<close> is only logged.
\<close>

theorem empty_aggregation_error:
  "\<not> test_connectivity net \<or> bulk_fetch_interface_data net (get_interface_count net) = []
   \<Longrightarrow> fetch_interface_data net = Inr []
       \<and> run net = [Error ''No interface data retrieved'', Finished]"
  by (auto simp: fetch_interface_data_def run_def Let_def)

lemma silent_probe: "test_connectivity silent_tables_device"
  by code_simp

lemma silent_aggregation:
  "bulk_fetch_interface_data silent_tables_device (get_interface_count silent_tables_device) = []"
  by code_simp

theorem empty_aggregation_error_witness:
  "test_connectivity silent_tables_device
   \<and> bulk_fetch_interface_data silent_tables_device (get_interface_count silent_tables_device) = []
   \<and> fetch_interface_data silent_tables_device = Inr []
   \<and> run silent_tables_device = [Error ''No interface data retrieved'', Finished]"
  using empty_aggregation_error [of silent_tables_device] silent_probe silent_aggregation
  by simp

text \<open>
  The claim as stated fails: a device that answers the probe and whose tables are all
  empty gets the same error as a device that fails the probe.
\<close>

theorem distinct_error_counterexample:
  "test_connectivity silent_tables_device
   \<and> bulk_fetch_interface_data silent_tables_device (get_interface_count silent_tables_device) = []
   \<and> \<not> test_connectivity unreachable_device
   \<and> run silent_tables_device \<noteq> [Error ''No interfaces found'', Finished]
   \<and> run silent_tables_device = run unreachable_device"
proof -
  have "\<not> test_connectivity unreachable_device" by code_simp
  moreover have "run unreachable_device = [Error ''No interface data retrieved'', Finished]"
    by code_simp
  moreover have "run silent_tables_device = [Error ''No interface data retrieved'', Finished]"
    by code_simp
  ultimately show ?thesis using silent_probe silent_aggregation by simp
qed

text \<open>
  Claim C4, as amended. When the scalar read of the interface count returns an error
  indication or an error status, and the fallback walk ends without an exception having
  counted no entry, the estimate is 10. The estimate is 20 when the fallback raises: its
  transport cannot be created, a request raises, or a reply has no variable binding.
\<close>

theorem fallback_estimate:
  "create_target net CountSite = None \<Longrightarrow>
   get_cmd net ''1.3.6.1.2.1.2.1.0'' = Reply errorIndication errorStatus varBinds \<Longrightarrow>
   errorIndication \<or> errorStatus \<Longrightarrow>
   (create_target net EstimateSite = None
      \<and> estimate_loop net 32 0 0 (OID_MAPPING ''ifDescr'') = Inr 0
      \<longrightarrow> get_interface_count net = 10)
   \<and> (create_target net EstimateSite \<noteq> None
        \<or> (\<exists>e. estimate_loop net 32 0 0 (OID_MAPPING ''ifDescr'') = Inl e)
      \<longrightarrow> get_interface_count net = 20)"
  by (auto simp: get_interface_count_def estimate_interface_count_def split: option.split)

theorem fallback_estimate_witness:
  "create_target unreachable_device CountSite = None
   \<and> get_cmd unreachable_device ''1.3.6.1.2.1.2.1.0'' = Reply True False []
   \<and> create_target unreachable_device EstimateSite = None
   \<and> estimate_loop unreachable_device 32 0 0 (OID_MAPPING ''ifDescr'') = Inr 0
   \<and> get_interface_count unreachable_device = 10
   \<and> create_target raising_walk_device CountSite = None
   \<and> get_cmd raising_walk_device ''1.3.6.1.2.1.2.1.0'' = Reply True False []
   \<and> estimate_loop raising_walk_device 32 0 0 (OID_MAPPING ''ifDescr'') = Inl OtherError
   \<and> get_interface_count raising_walk_device = 20"
proof -
  have a: "estimate_loop unreachable_device 32 0 0 (OID_MAPPING ''ifDescr'') = Inr 0"
    by code_simp
  have b: "estimate_loop raising_walk_device 32 0 0 (OID_MAPPING ''ifDescr'') = Inl OtherError"
    by code_simp
  have c: "create_target unreachable_device CountSite = None"
          "get_cmd unreachable_device ''1.3.6.1.2.1.2.1.0'' = Reply True False []"
          "create_target unreachable_device EstimateSite = None"
    by (simp_all add: unreachable_device_def)
  have d: "create_target raising_walk_device CountSite = None"
          "get_cmd raising_walk_device ''1.3.6.1.2.1.2.1.0'' = Reply True False []"
    by (simp_all add: raising_walk_device_def)
  from fallback_estimate [OF c(1) c(2)] a c(3)
  have "get_interface_count unreachable_device = 10" by simp
  moreover from fallback_estimate [OF d(1) d(2)] b
  have "get_interface_count raising_walk_device = 20" by blast
  ultimately show ?thesis using a b c d by simp
qed

text \<open>
  The claim as stated fails: with a failing scalar read and a fallback walk that ends at
  once in an error indication, the estimate is 10, not 20.
\<close>

theorem empty_fallback_counterexample:
  "create_target unreachable_device CountSite = None
   \<and> get_cmd unreachable_device ''1.3.6.1.2.1.2.1.0'' = Reply True False []
   \<and> estimate_loop unreachable_device 32 0 0 (OID_MAPPING ''ifDescr'') = Inr 0
   \<and> get_interface_count unreachable_device = 10
   \<and> get_interface_count unreachable_device \<noteq> 20"
proof -
  have "estimate_loop unreachable_device 32 0 0 (OID_MAPPING ''ifDescr'') = Inr 0"
    by code_simp
  moreover have "get_interface_count unreachable_device = 10" by code_simp
  ultimately show ?thesis by (simp add: unreachable_device_def)
qed

section \<open>Properties of the VLAN resolver\<close>

lemma dict_has_dict_set [simp]: "dict_has (dict_set d k v) i = (i = k \<or> dict_has d i)"
  by (auto simp: dict_has_def dict_set_def dom_update)

lemma map_of_dict_set [simp]: "map_of (dict_set d k v) = (map_of d)(k \<mapsto> v)"
  by (simp add: dict_set_def update_conv')

lemma distinct_dict_set: "distinct (map fst d) \<Longrightarrow> distinct (map fst (dict_set d k v))"
  by (simp add: dict_set_def distinct_update)

lemma dict_has_map_of: "dict_has d k = (map_of d k \<noteq> None)"
  by (simp add: dict_has_def map_of_eq_None_iff)

lemma dict_has_Nil [simp]: "\<not> dict_has [] k"
  by (simp add: dict_has_def)

lemma fill_na_Cons:
  "fill_na (x # xs) d = fill_na xs (if \<not> dict_has d x then dict_set d x ''N/A'' else d)"
  by (simp add: fill_na_def)

lemma fill_na_Nil [simp]: "fill_na [] d = d"
  by (simp add: fill_na_def)

lemma map_of_fill_na:
  "map_of (fill_na idx d) i =
     (case map_of d i of Some v \<Rightarrow> Some v
      | None \<Rightarrow> if i \<in> set idx then Some ''N/A'' else None)"
proof (induction idx arbitrary: d)
  case Nil
  then show ?case by (simp split: option.split)
next
  case (Cons x xs)
  show ?case
    unfolding fill_na_Cons Cons.IH
    by (auto simp: dict_has_map_of split: option.split)
qed

lemma dict_has_vlan_rows:
  "dict_has (vlan_rows oid idx vbs d) i \<Longrightarrow> dict_has d i \<or> i \<in> set idx"
  by (induction oid idx vbs d rule: vlan_rows.induct)
     (auto split: if_splits sum.splits)

lemma distinct_vlan_rows:
  "distinct (map fst d) \<Longrightarrow> distinct (map fst (vlan_rows oid idx vbs d))"
  by (induction oid idx vbs d rule: vlan_rows.induct)
     (auto split: if_splits sum.splits simp: distinct_dict_set)

lemma distinct_fetch_vlan_table: "distinct (map fst (fetch_vlan_table net oid idx))"
  by (simp add: fetch_vlan_table_def distinct_vlan_rows split: response.split)

lemma merge_cisco_Cons:
  "merge_cisco ((k, v) # c) d = merge_cisco c (if \<not> dict_has d k then dict_set d k v else d)"
  by (simp add: merge_cisco_def)

lemma merge_cisco_Nil [simp]: "merge_cisco [] d = d"
  by (simp add: merge_cisco_def)

lemma map_of_merge_cisco:
  "map_of (merge_cisco c d) i = (case map_of d i of Some v \<Rightarrow> Some v | None \<Rightarrow> map_of c i)"
proof (induction c arbitrary: d)
  case Nil
  then show ?case by (simp split: option.split)
next
  case (Cons kv c)
  obtain k v where kv: "kv = (k, v)" by (cases kv)
  show ?case
    unfolding kv merge_cisco_Cons Cons.IH
    by (auto simp: dict_has_map_of split: option.split)
qed

lemma distinct_merge_cisco:
  "distinct (map fst d) \<Longrightarrow> distinct (map fst (merge_cisco c d))"
proof (induction c arbitrary: d)
  case Nil
  then show ?case by simp
next
  case (Cons kv c)
  obtain k v where kv: "kv = (k, v)" by (cases kv)
  from Cons.prems show ?case
    unfolding kv merge_cisco_Cons
    by (intro Cons.IH) (simp add: distinct_dict_set)
qed

lemma map_of_vlan_ids:
  "map_of (vlan_ids net idx) i =
     (case map_of (fetch_pvid_data net idx) i of
        Some v \<Rightarrow> Some v
      | None \<Rightarrow>
          if fetch_pvid_data net idx = [] \<or> 2 * length (fetch_pvid_data net idx) < length idx
          then map_of (fetch_cisco_vlan_data net idx) i else None)"
  by (auto simp: vlan_ids_def Let_def map_of_merge_cisco split: option.split)

lemma distinct_vlan_ids: "distinct (map fst (vlan_ids net idx))"
  by (simp add: vlan_ids_def Let_def distinct_merge_cisco fetch_pvid_data_def
        fetch_cisco_vlan_data_def distinct_fetch_vlan_table)

lemma digit_not_space: "is_digit c \<Longrightarrow> \<not> is_space c"
  by (auto simp: is_digit_def is_space_def)

lemma digit_run_all: "s \<noteq> [] \<Longrightarrow> list_all is_digit s \<Longrightarrow> digit_run s"
  by (induction s rule: digit_run.induct) (auto simp: is_digit_def)

lemma dropWhile_head: "s \<noteq> [] \<Longrightarrow> \<not> P (hd s) \<Longrightarrow> dropWhile P s = s"
  by (cases s) simp_all

lemma py_strip_digits: "s \<noteq> [] \<Longrightarrow> list_all is_digit s \<Longrightarrow> py_strip s = s"
proof -
  assume ne: "s \<noteq> []" and all: "list_all is_digit s"
  then have "is_digit (hd s)" "is_digit (last s)"
    by (simp_all add: list_all_iff)
  then have h: "\<not> is_space (hd s)" "\<not> is_space (hd (rev s))"
    using ne by (simp_all add: digit_not_space hd_rev)
  from ne h show ?thesis
    by (simp add: py_strip_def dropWhile_head)
qed

lemma py_int_str_isdigit: "py_isdigit s \<Longrightarrow> py_int_str s = Inr (int (digits_val s))"
proof -
  assume "py_isdigit s"
  then have ne: "s \<noteq> []" and all: "list_all is_digit s"
    by (simp_all add: py_isdigit_def)
  then have hd: "is_digit (hd s)" by (simp add: list_all_iff)
  then have sign: "hd s \<noteq> CHR ''-''" "hd s \<noteq> CHR ''+''"
    by (auto simp: is_digit_def)
  have "\<forall>c \<in> set s. c \<noteq> CHR ''_''"
    using all by (auto simp: list_all_iff is_digit_def)
  then have f: "filter (\<lambda>c. c \<noteq> CHR ''_'') s = s"
    by (simp add: filter_id_conv)
  show ?thesis
    using ne sign f digit_run_all [OF ne all]
    by (simp add: py_int_str_def py_strip_digits [OF ne all])
qed

lemma enhance_lookup:
  "distinct (map fst items) \<Longrightarrow> (\<forall>(k, v) \<in> set items. map_of d k = Some v) \<Longrightarrow>
   fst (enhance ns items d) = None
   \<and> map_of (snd (enhance ns items d)) i =
       (case map_of items i of Some v \<Rightarrow> Some (with_name ns v) | None \<Rightarrow> map_of d i)"
proof (induction items arbitrary: d)
  case Nil
  then show ?case by simp
next
  case (Cons kv items)
  obtain k v where kv: "kv = (k, v)" by (cases kv)
  from Cons.prems kv have dist: "distinct (map fst items)" and knot: "k \<notin> fst ` set items"
    and dk: "map_of d k = Some v" and rest: "\<forall>(k', v') \<in> set items. map_of d k' = Some v'"
    by auto
  have rest': "\<forall>(k', v') \<in> set items. map_of (dict_set d k w) k' = Some v'" for w
    using rest knot by (auto simp: rev_image_eqI)
  from knot have mk: "map_of items k = None"
    by (simp add: map_of_eq_None_iff)
  show ?case
  proof (cases "py_isdigit v")
    case False
    with Cons.IH [OF dist rest] dk kv mk show ?thesis
      by (auto simp: with_name_def split: option.split)
  next
    case True
    from py_int_str_isdigit [OF True] obtain vid where vid: "py_int_str v = Inr vid" by blast
    show ?thesis
    proof (cases "dict_has ns vid")
      case h: True
      from Cons.IH [OF dist rest', of "vlan_label vid (dict_get ns vid [])"] kv True vid h mk
      show ?thesis
        by (auto simp: with_name_def split: option.split)
    next
      case h: False
      with Cons.IH [OF dist rest] dk kv True vid mk show ?thesis
        by (auto simp: with_name_def split: option.split)
    qed
  qed
qed

lemma vlan_try_lookup:
  "create_target net VlanSite = None \<Longrightarrow>
   map_of (snd (vlan_try net idx)) i
     = map_option (with_name (fetch_vlan_names net)) (map_of (vlan_ids net idx) i)"
proof -
  assume t: "create_target net VlanSite = None"
  let ?d = "vlan_ids net idx" and ?ns = "fetch_vlan_names net"
  have inv: "\<forall>(k, v) \<in> set ?d. map_of ?d k = Some v"
    using distinct_vlan_ids [of net idx] by auto
  have e: "map_of (snd (enhance ?ns ?d ?d)) i = map_option (with_name ?ns) (map_of ?d i)"
    using enhance_lookup [where items = ?d and d = ?d and ns = ?ns and i = i,
            OF distinct_vlan_ids inv]
    by (simp split: option.split)
  have w: "with_name [] v = v" for v
    by (simp add: with_name_def split: sum.split)
  show ?thesis
  proof (cases "?d = []")
    case True
    with t show ?thesis by (simp add: vlan_try_def)
  next
    case False
    show ?thesis
    proof (cases "?ns = []")
      case True
      with t False show ?thesis
        by (simp add: vlan_try_def Let_def w option.map_ident cong: option.map_cong)
    next
      case ns: False
      with t False e show ?thesis by (simp add: vlan_try_def Let_def)
    qed
  qed
qed

lemma get_vlan_data_bulk_eq:
  "get_vlan_data_bulk net idx = Inr (fill_na idx (snd (vlan_try net idx)))"
  by (simp add: get_vlan_data_bulk_def split: prod.split option.split)

lemma vlan_try_failed: "create_target net VlanSite = Some e \<Longrightarrow> snd (vlan_try net idx) = []"
  by (simp add: vlan_try_def)

text \<open>
  Claim C6. \<^verbatim>\<open>_get_vlan_data_bulk\<close> returns on every path (no exception leaves it),
  its result has an entry for every requested index, and an index for which neither the
  PVID table nor the vendor table gave a value is mapped to \<^verbatim>\<open>N/A\<close> (the name
  table gives no evidence of its own: it only rewrites values that are there).
\<close>

theorem vlan_resolve_total:
  "\<exists>d. get_vlan_data_bulk net interface_indices = Inr d
       \<and> (\<forall>i \<in> set interface_indices.
             dict_has d i
             \<and> (\<not> dict_has (fetch_pvid_data net interface_indices) i
                  \<and> \<not> dict_has (fetch_cisco_vlan_data net interface_indices) i
                \<longrightarrow> map_of d i = Some ''N/A''))"
proof (cases "create_target net VlanSite")
  case None
  show ?thesis
    by (auto simp: get_vlan_data_bulk_eq map_of_fill_na vlan_try_lookup [OF None] map_of_vlan_ids
          dict_has_map_of split: option.split)
next
  case (Some e)
  show ?thesis
    by (auto simp: get_vlan_data_bulk_eq map_of_fill_na vlan_try_failed [OF Some]
          dict_has_map_of split: option.split)
qed

theorem vlan_resolve_total_witness:
  "\<exists>d. get_vlan_data_bulk vlan_device [1, 2, 3] = Inr d
       \<and> dict_has d 1 \<and> dict_has d 2 \<and> dict_has d 3
       \<and> \<not> dict_has (fetch_pvid_data vlan_device [1, 2, 3]) 3
       \<and> \<not> dict_has (fetch_cisco_vlan_data vlan_device [1, 2, 3]) 3
       \<and> map_of d 3 = Some ''N/A''"
proof -
  have a: "\<not> dict_has (fetch_pvid_data vlan_device [1, 2, 3]) 3" by code_simp
  have b: "\<not> dict_has (fetch_cisco_vlan_data vlan_device [1, 2, 3]) 3" by code_simp
  from vlan_resolve_total [of vlan_device "[1, 2, 3]"] a b show ?thesis by auto
qed

text \<open>
  Claim C7. Where the PVID table yields a value for an index, the final value of that
  index is the PVID-derived one, whatever the vendor table yields: the PVID value itself,
  or, when the name table knows the id, the PVID value with its name.
\<close>

theorem pvid_precedence:
  "create_target net VlanSite = None \<Longrightarrow>
   map_of (fetch_pvid_data net interface_indices) i = Some pvid \<Longrightarrow>
   \<exists>d. get_vlan_data_bulk net interface_indices = Inr d
       \<and> map_of d i = Some (with_name (fetch_vlan_names net) pvid)"
  by (simp add: get_vlan_data_bulk_eq map_of_fill_na vlan_try_lookup map_of_vlan_ids)

theorem pvid_precedence_witness:
  "create_target vlan_device VlanSite = None
   \<and> map_of (fetch_pvid_data vlan_device [1, 2, 3]) 1 = Some ''10''
   \<and> map_of (fetch_cisco_vlan_data vlan_device [1, 2, 3]) 1 = Some ''20''
   \<and> (\<exists>d. get_vlan_data_bulk vlan_device [1, 2, 3] = Inr d
          \<and> map_of d 1 = Some ''10 (office)'')"
proof -
  have t: "create_target vlan_device VlanSite = None" by (simp add: vlan_device_def)
  have a: "map_of (fetch_pvid_data vlan_device [1, 2, 3]) 1 = Some ''10''" by code_simp
  have b: "map_of (fetch_cisco_vlan_data vlan_device [1, 2, 3]) 1 = Some ''20''" by code_simp
  have c: "with_name (fetch_vlan_names vlan_device) ''10'' = ''10 (office)''" by code_simp
  from pvid_precedence [OF t a] c t a b show ?thesis by simp
qed

section \<open>Properties of the power resolver\<close>





lemma dict_set_not_Nil [simp]: "dict_set d k v \<noteq> []"
  by (cases d) (simp_all add: dict_set_def)



section \<open>Properties of the table walker\<close>





lemma length_dict_set: "length (dict_set d k v) \<le> Suc (length d)"
  unfolding dict_set_def by (induction d) auto

lemma walk_rows_count:
  "walk_rows oid_name oid_base vbs st = (r, st') \<Longrightarrow>
   interfaces_found st' \<le> interfaces_found st + int (length vbs)
   \<and> int (length (oid_data st')) - interfaces_found st'
       \<le> int (length (oid_data st)) - interfaces_found st"
proof (induction oid_name oid_base vbs st rule: walk_rows.induct)
  case (1 oid_name oid_base st)
  then show ?case by simp
next
  case (2 oid_name oid_base name_str val rest st)
  show ?case
  proof (cases "startswith name_str oid_base")
    case False
    with "2.prems" show ?thesis by simp
  next
    case sw: True
    show ?thesis
    proof (cases "py_int_str (last (py_split CHR ''.'' name_str))")
      case (Inl e)
      with "2.IH"(1) [OF _ Inl] "2.prems" sw show ?thesis by simp
    next
      case (Inr if_index)
      show ?thesis
      proof (cases "convert_snmp_value oid_name val")
        case cv: (Inl e)
        show ?thesis
        proof (cases "e = ValueError \<or> e = IndexError")
          case True
          with "2.IH"(2) [OF _ Inr cv] "2.prems" sw Inr cv show ?thesis by simp
        next
          case False
          with "2.prems" sw Inr cv show ?thesis by simp
        qed
      next
        case cv: (Inr x)
        from "2.prems" sw Inr cv
        have "walk_rows oid_name oid_base rest
                (st\<lparr>oid_data := dict_set (oid_data st) if_index x,
                    interfaces_found := interfaces_found st + 1,
                    found_in_batch := True, current_oid := name_str\<rparr>) = (r, st')"
          by simp
        from "2.IH"(3) [OF _ Inr cv this] sw length_dict_set [of "oid_data st" if_index x]
        show ?thesis by simp
      qed
    qed
  qed
qed

lemma walk_loop_bound:
  "\<forall>n c ei es vbs. bulk_cmd net n 10 c = Reply ei es vbs \<longrightarrow> length vbs \<le> p \<Longrightarrow>
   int (length (oid_data st)) \<le> interfaces_found st \<Longrightarrow> interfaces_found st \<le> M \<Longrightarrow>
   max_interfaces - 1 + int p \<le> M \<Longrightarrow>
   int (length (walk_loop net oid_name oid_base max_interfaces n st)) \<le> M"
proof (induction net oid_name oid_base max_interfaces n st rule: walk_loop.induct)
  case (1 net oid_name oid_base max_interfaces n st)
  note pages = "1.prems"(1) and inv = "1.prems"(2) and le = "1.prems"(3) and M = "1.prems"(4)
  note pg = pages [rule_format]
  from inv le have base: "int (length (oid_data st)) \<le> M" by simp
  show ?case
  proof (cases "interfaces_found st < max_interfaces")
    case False
    with base show ?thesis by (subst walk_loop.simps) simp
  next
    case lt: True
    show ?thesis
    proof (cases "bulk_cmd net n 10 (current_oid st)")
      case (Raises e)
      with lt base show ?thesis by (subst walk_loop.simps) simp
    next
      case (Reply ei es vbs)
      show ?thesis
      proof (cases "ei \<or> es \<or> vbs = []")
        case True
        with lt Reply base show ?thesis by (subst walk_loop.simps) auto
      next
        case False
        then have ok: "\<not> ei" "\<not> es" "vbs \<noteq> []" by simp_all
        obtain r st' where w: "walk_rows oid_name oid_base vbs (st\<lparr>found_in_batch := False\<rparr>) = (r, st')"
          by (cases "walk_rows oid_name oid_base vbs (st\<lparr>found_in_batch := False\<rparr>)")
        from walk_rows_count [OF w] pg [OF Reply] lt M inv
        have f': "interfaces_found st' \<le> M"
          and d': "int (length (oid_data st')) \<le> interfaces_found st'"
          by simp_all
        then have base': "int (length (oid_data st')) \<le> M" by simp
        show ?thesis
        proof (cases "r = None \<and> found_in_batch st'")
          case True
          then have r: "r = None" and fb: "found_in_batch st'" by simp_all
          from "1.IH" [OF lt Reply _ _ _ w [symmetric, unfolded r] _ _ pages d' f' M] ok fb
          have "int (length (walk_loop net oid_name oid_base max_interfaces (Suc n) st')) \<le> M"
            by simp
          with lt Reply ok w r fb show ?thesis by (subst walk_loop.simps) simp
        next
          case False
          with lt Reply ok w base' show ?thesis
            by (subst walk_loop.simps) (auto split: option.split)
        qed
      qed
    qed
  qed
qed




text \<open>
  Claim C3, as amended. The walk requests no further page once the row count has reached
  \<^verbatim>\<open>max_interfaces\<close>; the count is compared between pages only, so when no reply has
  more than \<open>p\<close> rows the result has at most \<open>max_interfaces - 1 + p\<close> entries. When
  \<^verbatim>\<open>max_interfaces\<close> is zero or negative no page is requested and the result is empty.
\<close>

theorem walk_result_bound:
  "(page_size_at_most net p \<longrightarrow>
      int (length (bulk_fetch_single_oid net oid_name max_interfaces))
        \<le> max 0 (max_interfaces - 1 + int p))
   \<and> (max_interfaces \<le> 0 \<longrightarrow> bulk_fetch_single_oid net oid_name max_interfaces = [])"
proof (intro conjI impI)
  assume "page_size_at_most net p"
  then have "\<forall>n c ei es vbs. bulk_cmd net n 10 c = Reply ei es vbs \<longrightarrow> length vbs \<le> p"
    by (simp add: page_size_at_most_def)
  then show "int (length (bulk_fetch_single_oid net oid_name max_interfaces))
               \<le> max 0 (max_interfaces - 1 + int p)"
    unfolding bulk_fetch_single_oid_def
    by (rule walk_loop_bound) simp_all
next
  assume "max_interfaces \<le> 0"
  then show "bulk_fetch_single_oid net oid_name max_interfaces = []"
    unfolding bulk_fetch_single_oid_def
    by (subst walk_loop.simps) simp
qed

lemma two_row_pages: "page_size_at_most two_row_device 2"
  by (auto simp: page_size_at_most_def two_row_device_def split: if_splits)

theorem walk_result_bound_witness:
  "page_size_at_most two_row_device 2
   \<and> int (length (bulk_fetch_single_oid two_row_device ''ifDescr'' 1)) \<le> max 0 (1 - 1 + int 2)
   \<and> (0 :: int) \<le> 0
   \<and> bulk_fetch_single_oid two_row_device ''ifDescr'' 0 = []"
proof -
  have a: "int (length (bulk_fetch_single_oid two_row_device ''ifDescr'' 1))
             \<le> max 0 (1 - 1 + int 2)"
    by (rule mp [OF conjunct1 [OF walk_result_bound] two_row_pages])
  have b: "bulk_fetch_single_oid two_row_device ''ifDescr'' 0 = []"
    by (rule mp [OF conjunct2 [OF walk_result_bound]]) simp
  show ?thesis
  proof (intro conjI)
    show "page_size_at_most two_row_device 2" by (rule two_row_pages)
    show "int (length (bulk_fetch_single_oid two_row_device ''ifDescr'' 1))
            \<le> max 0 (1 - 1 + int 2)" by (rule a)
    show "(0 :: int) \<le> 0" by simp
    show "bulk_fetch_single_oid two_row_device ''ifDescr'' 0 = []" by (rule b)
  qed
qed

text \<open>
  The claim as stated fails: with \<^verbatim>\<open>max_interfaces = 1\<close> and a first page of two rows,
  the result has two entries.
\<close>

theorem max_rows_counterexample:
  "bulk_fetch_single_oid two_row_device ''ifDescr'' 1
     = [(1, PyStr ''eth1''), (2, PyStr ''eth2'')]
   \<and> int (length (bulk_fetch_single_oid two_row_device ''ifDescr'' 1)) > 1"
proof -
  have "bulk_fetch_single_oid two_row_device ''ifDescr'' 1
     = [(1, PyStr ''eth1''), (2, PyStr ''eth2'')]"
    by code_simp
  then show ?thesis by simp
qed

section \<open>Properties of the aggregator\<close>

lemma map_fst_dict_set:
  "map fst (dict_set d k v) = (if k \<in> fst ` set d then map fst d else map fst d @ [k])"
  by (simp add: dict_set_def update_keys)

lemma keys_dict_set: "fst ` set (dict_set d k v) = insert k (fst ` set d)"
  by (simp add: dict_set_def dom_update)

lemma dict_keys_merge_row:
  "dict_keys (merge_row oid_name row d)
     = (if fst row \<in> set (dict_keys d) then dict_keys d else dict_keys d @ [fst row])"
  by (simp add: merge_row_def Let_def dict_has_def dict_keys_def map_fst_dict_set keys_dict_set)

lemma first_seen_Cons:
  "first_seen acc (x # xs) = first_seen (if x \<in> set acc then acc else acc @ [x]) xs"
  by (simp add: first_seen_def)

lemma first_seen_Nil [simp]: "first_seen acc [] = acc"
  by (simp add: first_seen_def)

lemma first_seen_append: "first_seen acc (xs @ ys) = first_seen (first_seen acc xs) ys"
  by (simp add: first_seen_def)

lemma dict_keys_fold_merge_row:
  "dict_keys (fold (merge_row oid_name) rows d) = first_seen (dict_keys d) (map fst rows)"
proof (induction rows arbitrary: d)
  case Nil
  then show ?case by simp
next
  case (Cons row rows)
  show ?case
    by (simp add: Cons.IH first_seen_Cons dict_keys_merge_row)
qed

lemma dict_keys_fold_oids:
  "dict_keys (fold (\<lambda>oid_name d. fold (merge_row oid_name) (result oid_name) d) names d)
     = first_seen (dict_keys d) (concat (map (\<lambda>oid_name. dict_keys (result oid_name)) names))"
proof (induction names arbitrary: d)
  case Nil
  then show ?case by simp
next
  case (Cons nm names)
  show ?case
    by (simp add: Cons.IH first_seen_append dict_keys_fold_merge_row) (simp add: dict_keys_def)
qed

lemma first_seen_props:
  "distinct acc \<Longrightarrow> distinct (first_seen acc xs) \<and> set (first_seen acc xs) = set acc \<union> set xs"
proof (induction xs arbitrary: acc)
  case Nil
  then show ?case by simp
next
  case (Cons x xs)
  show ?case
  proof (cases "x \<in> set acc")
    case True
    with Cons.IH [OF Cons.prems] show ?thesis by (auto simp: first_seen_Cons)
  next
    case False
    with Cons.prems have "distinct (acc @ [x])" by simp
    from Cons.IH [OF this] False show ?thesis by (auto simp: first_seen_Cons)
  qed
qed

lemma Index_assemble: "Index (assemble vlan_data power_data item) = fst item"
  by (simp add: assemble_def Let_def)

text \<open>
  Claim C5, as amended. For every successful fetch the returned list has exactly one
  record per discovered interface index, in the order in which the indices were first
  discovered: the walks in the order of the core fields, the rows of a walk in the order
  in which it collected them.
\<close>

theorem record_order:
  assumes "fetch_interface_data net = Inr result" and "result \<noteq> []"
  shows "map Index result
           = first_seen []
               (concat (map (\<lambda>oid_name.
                  dict_keys (bulk_fetch_single_oid net oid_name (get_interface_count net)))
                  core_oids))
         \<and> distinct (map Index result)
         \<and> set (map Index result)
             = (\<Union>oid_name \<in> set core_oids.
                  set (dict_keys (bulk_fetch_single_oid net oid_name (get_interface_count net))))"
proof -
  let ?walk = "\<lambda>oid_name. bulk_fetch_single_oid net oid_name (get_interface_count net)"
  let ?data = "bulk_fetch_interface_data net (get_interface_count net)"
  from assms have idx: "map Index result = dict_keys ?data" and ne: "?data \<noteq> []"
    by (auto simp: fetch_interface_data_def Let_def Index_assemble dict_keys_def
          split: if_splits)
  from ne have "create_target net FetchSite = None"
    by (auto simp: bulk_fetch_interface_data_def split: option.splits)
  then have "?data = merge_results ?walk"
    by (simp add: bulk_fetch_interface_data_def)
  then have keys: "dict_keys ?data
      = first_seen [] (concat (map (\<lambda>oid_name. dict_keys (?walk oid_name)) core_oids))"
    by (simp add: merge_results_def dict_keys_fold_oids) (simp add: dict_keys_def)
  from first_seen_props [of "[]" "concat (map (\<lambda>oid_name. dict_keys (?walk oid_name)) core_oids)"]
  show ?thesis
    unfolding idx keys by auto
qed

lemma sparse_fetch:
  "(case fetch_interface_data sparse_device of Inl e \<Rightarrow> False
    | Inr result \<Rightarrow> map Index result = [1, 3, 2])"
  by code_simp

theorem record_order_witness:
  "\<exists>result. fetch_interface_data sparse_device = Inr result \<and> result \<noteq> []
       \<and> map Index result = [1, 3, 2] \<and> distinct (map Index result)"
proof -
  from sparse_fetch obtain result where
    r: "fetch_interface_data sparse_device = Inr result" and i: "map Index result = [1, 3, 2]"
    by (auto split: sum.splits)
  from i have ne: "result \<noteq> []" by auto
  from record_order [OF r ne] have d: "distinct (map Index result)" by (rule conjunct1 [OF conjunct2])
  show ?thesis
  proof (intro exI [of _ result] conjI)
    show "fetch_interface_data sparse_device = Inr result" by (rule r)
    show "result \<noteq> []" by (rule ne)
    show "map Index result = [1, 3, 2]" by (rule i)
    show "distinct (map Index result)" by (rule d)
  qed
qed

text \<open>
  The claim as stated fails: when the description table lacks a row that the status
  table has, the records come in the order 1, 3, 2.
\<close>

theorem ascending_order_counterexample:
  "(case fetch_interface_data sparse_device of Inl e \<Rightarrow> False
    | Inr result \<Rightarrow> map Index result = [1, 3, 2] \<and> \<not> sorted (map Index result))"
  using sparse_fetch by (auto split: sum.splits)

end
